theory Spec2Isabelle
  imports Main
begin

section \<open>The task store of TaskManager (src/DB/db.ts)\<close>

text \<open>
  The data-access class \<^verbatim>\<open>DB\<close> keeps every task in one JSON file. Each operation reads
  the whole file, works on the parsed array in memory and writes the whole array back.
  The embedding below follows \<^verbatim>\<open>src/DB/db.ts\<close> function by function. The file system is
  an explicit state that every operation takes and returns; every \<^verbatim>\<open>throw\<close> of the
  source is an \<open>Inl\<close> result.

  Modelling decisions, each of them about the JavaScript runtime and not about the
  code of the repository:
  \<^item> A JavaScript number that reaches an id parameter is either an integer or not an
    integer (a fraction, \<^verbatim>\<open>NaN\<close>, an infinity); \<^verbatim>\<open>Number.isInteger\<close> tells them apart. The
    parameter is taken after the source's \<^verbatim>\<open>Number(id)\<close> conversion.
  \<^item> The \<^verbatim>\<open>id\<close> of a stored task is a JavaScript number with an integer value, that
    is, an integer that is an IEEE 754 double. Comparison of such numbers is exact.
    The one arithmetic operation of the code, \<^verbatim>\<open>id + 1\<close> in line 177, is the addition of
    doubles, modelled by \<open>js_add_one\<close> below: from \<open>-2^53\<close> up to \<open>2^53 - 1\<close> it is the
    successor, outside it rounds.
  \<^item> A title is a list of characters, one per UTF-16 code unit, which is what
    \<^verbatim>\<open>title.length\<close> counts. The code only compares titles and takes their length.
  \<^item> A text (the content of the file, or a string handed to \<^verbatim>\<open>insertBulkData\<close>) is
    described by what \<^verbatim>\<open>JSON.parse\<close> makes of it: the empty string, text that is not
    JSON, JSON that is not an array, or a JSON array of task objects. It is assumed
    that \<^verbatim>\<open>JSON.parse\<close> gives back the array of tasks that \<^verbatim>\<open>JSON.stringify\<close> wrote;
    indentation (2 or 4 spaces) is not visible at this level.
  \<^item> A write either replaces the whole content or fails and leaves the file as it
    was; whether writes succeed is the flag \<open>writable\<close> of the state. Console output is
    not modelled.
\<close>

subsection \<open>Data\<close>

text \<open>The type \<^verbatim>\<open>Task\<close> of \<^verbatim>\<open>src/types/task.ts\<close>: \<^verbatim>\<open>{id: number, title: string, completed: boolean}\<close>.\<close>

record task =
  task_id :: int
  title :: string
  completed :: bool

datatype js_number = JInt int | JNonInt

datatype json_text =
    EmptyText
  | MalformedText
  | NonArrayText
  | ArrayText "task list"

datatype js_value = NonArray | Array "task list"

text \<open>The file named by \<^verbatim>\<open>DB_FILE\<close>: absent (\<open>None\<close>) or holding a text.\<close>

record disk =
  content :: "json_text option"
  writable :: bool

text \<open>Every error the source throws, named after its message.\<close>

datatype error =
    CannotWriteTo        \<comment> \<open>"Cannot write to " + filename\<close>
  | SyntaxErrorInDB      \<comment> \<open>"Syntax error in DB file. " + ...\<close>
  | InvalidId            \<comment> \<open>"id must be an integer and greater than or equal to zero."\<close>
  | InvalidTitle         \<comment> \<open>"title must be a string and at least three characters long."\<close>
  | TitleExists          \<comment> \<open>"A task with this title already exists."\<close>
  | TaskNotFound         \<comment> \<open>"Task not found"\<close>
  | AnotherHasTitle      \<comment> \<open>"Another task already has this title."\<close>
  | InvalidBulkJSON      \<comment> \<open>"Invalid data: Could not parse JSON string."\<close>
  | InvalidBulkNotArray  \<comment> \<open>"Invalid data: Must be an array of Task objects."\<close>
  | CannotWriteDB        \<comment> \<open>"Cannot write to DB file."\<close>
  | InvalidDeleteId      \<comment> \<open>"task id must be a positive integer"\<close>
  | CannotReadDB         \<comment> \<open>"Cannot read DB file: " + ...\<close>
  | JS_SyntaxError       \<comment> \<open>uncaught \<^verbatim>\<open>SyntaxError\<close> of \<^verbatim>\<open>JSON.parse\<close>\<close>
  | JS_TypeError         \<comment> \<open>uncaught \<^verbatim>\<open>TypeError\<close>: \<^verbatim>\<open>data.find\<close> on a value that is no array\<close>
  | FS_Error             \<comment> \<open>uncaught error of \<^verbatim>\<open>fs.readFileSync\<close> or \<^verbatim>\<open>fs.writeFileSync\<close>\<close>

datatype bulk_data = BulkString json_text | BulkArray "task list"

subsection \<open>The runtime: \<^verbatim>\<open>fs\<close> and \<^verbatim>\<open>JSON\<close>\<close>

definition existsSync :: "disk \<Rightarrow> bool" where
  "existsSync d = (content d \<noteq> None)"

text \<open>\<open>None\<close> is the exception of \<^verbatim>\<open>fs.readFileSync\<close> on a file that is not there.\<close>

definition readFileSync :: "disk \<Rightarrow> json_text option" where
  "readFileSync d = content d"

text \<open>\<open>None\<close> is the exception of \<^verbatim>\<open>fs.writeFileSync\<close>; the file is then as it was.\<close>

definition writeFileSync :: "json_text \<Rightarrow> disk \<Rightarrow> disk option" where
  "writeFileSync txt d = (if writable d then Some (d\<lparr>content := Some txt\<rparr>) else None)"

text \<open>\<open>None\<close> is the \<^verbatim>\<open>SyntaxError\<close> of \<^verbatim>\<open>JSON.parse\<close>.\<close>

fun JSON_parse :: "json_text \<Rightarrow> js_value option" where
  "JSON_parse EmptyText = None"
| "JSON_parse MalformedText = None"
| "JSON_parse NonArrayText = Some NonArray"
| "JSON_parse (ArrayText ts) = Some (Array ts)"

definition JSON_stringify :: "task list \<Rightarrow> json_text" where
  "JSON_stringify ts = ArrayText ts"

text \<open>
  \<^verbatim>\<open>n + 1\<close> for a double \<open>n\<close> with an integer value: the exact sum, rounded to the nearest
  double, to the one with the even significand in a tie. A double has 53 significant
  bits. From \<open>-2^53\<close> up to \<open>2^53 - 1\<close> the sum is a double itself. A double of magnitude
  from \<open>2^53\<close> to \<open>2^54\<close> is even and its neighbours are two apart, so the sum lies in the
  middle between \<open>n\<close> and \<open>n + 2\<close>, and the one whose half is even is taken:
  \<^verbatim>\<open>9007199254740992 + 1\<close> is \<^verbatim>\<open>9007199254740992\<close>, \<^verbatim>\<open>9007199254740994 + 1\<close> is
  \<^verbatim>\<open>9007199254740996\<close>. Beyond, the neighbours are four or more apart and the sum rounds
  back to \<open>n\<close>.
\<close>

definition js_add_one :: "int \<Rightarrow> int" where
  "js_add_one n =
     (if - (2 ^ 53) \<le> n \<and> n < 2 ^ 53 then n + 1
      else if \<bar>n\<bar> < 2 ^ 54 then (if even (n div 2) then n else n + 2)
      else n)"

subsection \<open>\<^verbatim>\<open>DB.createDB\<close>, \<^verbatim>\<open>DB.resetDB\<close>, \<^verbatim>\<open>DB.DBExists\<close>\<close>

definition createDB :: "disk \<Rightarrow> (error + bool) \<times> disk" where
  "createDB d =
     (if existsSync d then (Inr False, d)
      else (case writeFileSync (ArrayText []) d of
              None \<Rightarrow> (Inl CannotWriteTo, d)
            | Some d' \<Rightarrow> (Inr True, d')))"

definition resetDB :: "disk \<Rightarrow> (error + bool) \<times> disk" where
  "resetDB d =
     (case writeFileSync (ArrayText []) d of
        None \<Rightarrow> (Inl CannotWriteTo, d)
      | Some d' \<Rightarrow> (Inr True, d'))"

definition DBExists :: "disk \<Rightarrow> bool" where
  "DBExists d = existsSync d"

subsection \<open>The readers: \<^verbatim>\<open>getTaskByID\<close>, \<^verbatim>\<open>getTaskByTitle\<close>, \<^verbatim>\<open>getAllTasks\<close>\<close>

text \<open>
  \<^verbatim>\<open>getTaskByID\<close> and \<^verbatim>\<open>getTaskByTitle\<close> differ in the predicate of \<^verbatim>\<open>data.find\<close> only.
  With the file absent they create it and return \<^verbatim>\<open>null\<close>; an error of \<^verbatim>\<open>createDB\<close> is
  thrown again with the same message. With the file present, the \<^verbatim>\<open>try\<close> block catches
  the \<^verbatim>\<open>SyntaxError\<close> of \<^verbatim>\<open>JSON.parse\<close> and the \<^verbatim>\<open>TypeError\<close> of \<^verbatim>\<open>data.find\<close> on a
  value that is no array alike.
\<close>

definition find_in_DB :: "(task \<Rightarrow> bool) \<Rightarrow> disk \<Rightarrow> (error + task option) \<times> disk" where
  "find_in_DB p d =
     (if \<not> DBExists d then
        (case createDB d of
           (Inl e, d') \<Rightarrow> (Inl e, d')
         | (Inr _, d') \<Rightarrow> (Inr None, d'))
      else
        (case readFileSync d of
           None \<Rightarrow> (Inl SyntaxErrorInDB, d)
         | Some raw \<Rightarrow>
             (case JSON_parse raw of
                None \<Rightarrow> (Inl SyntaxErrorInDB, d)
              | Some NonArray \<Rightarrow> (Inl SyntaxErrorInDB, d)
              | Some (Array data) \<Rightarrow> (Inr (find p data), d))))"

definition getTaskByID :: "js_number \<Rightarrow> disk \<Rightarrow> (error + task option) \<times> disk" where
  "getTaskByID i d = find_in_DB (\<lambda>t. JInt (task_id t) = i) d"

definition getTaskByTitle :: "string \<Rightarrow> disk \<Rightarrow> (error + task option) \<times> disk" where
  "getTaskByTitle ttl d = find_in_DB (\<lambda>t. title t = ttl) d"

definition getAllTasks :: "disk \<Rightarrow> (error + task list) \<times> disk" where
  "getAllTasks d =
     (if \<not> DBExists d then
        (case createDB d of
           (Inl e, d') \<Rightarrow> (Inl e, d')
         | (Inr _, d') \<Rightarrow> (Inr [], d'))
      else
        (case readFileSync d of
           None \<Rightarrow> (Inl SyntaxErrorInDB, d)
         | Some raw \<Rightarrow>
             (case JSON_parse raw of
                None \<Rightarrow> (Inl SyntaxErrorInDB, d)
              | Some NonArray \<Rightarrow> (Inr [], d)
              | Some (Array data) \<Rightarrow> (Inr data, d))))"

subsection \<open>\<^verbatim>\<open>DB.saveTask\<close>\<close>

text \<open>
  Lines 165 to 171: the array the operation works on. \<^verbatim>\<open>JSON.parse\<close> stands outside any
  \<^verbatim>\<open>try\<close> here, so its \<^verbatim>\<open>SyntaxError\<close> leaves \<^verbatim>\<open>saveTask\<close> as it is. A value that is no
  array has no \<^verbatim>\<open>find\<close> method: both branches below call \<^verbatim>\<open>data.find\<close> before they
  write, and the call throws a \<^verbatim>\<open>TypeError\<close>.
\<close>

definition saveTask_load :: "disk \<Rightarrow> (error + task list) \<times> disk" where
  "saveTask_load d =
     (if DBExists d then
        (case readFileSync d of
           None \<Rightarrow> (Inl FS_Error, d)
         | Some rawData \<Rightarrow>
             (case JSON_parse rawData of
                None \<Rightarrow> (Inl JS_SyntaxError, d)
              | Some NonArray \<Rightarrow> (Inl JS_TypeError, d)
              | Some (Array data) \<Rightarrow> (Inr data, d)))
      else
        (case createDB d of
           (Inl e, d') \<Rightarrow> (Inl e, d')
         | (Inr _, d') \<Rightarrow> (Inr [], d')))"

text \<open>Lines 175 to 184, \<^verbatim>\<open>id === 0\<close>: the new id, the title check, \<^verbatim>\<open>data.push\<close>.\<close>

definition saveTask_create :: "string \<Rightarrow> bool \<Rightarrow> task list \<Rightarrow> error + int \<times> task list" where
  "saveTask_create ttl cmpl data =
     (let finalId =
        (if length data > 0 then js_add_one (task_id (data ! (length data - 1))) else 1)
      in if find (\<lambda>t. title t = ttl) data \<noteq> None then Inl TitleExists
         else Inr (finalId, data @ [\<lparr>task_id = finalId, title = ttl, completed = cmpl\<rparr>]))"

text \<open>
  \<^verbatim>\<open>existingTask\<close> is the first element of \<^verbatim>\<open>data\<close> with the id; the two assignments of
  lines 194 and 195 change that element of the array in place.
\<close>

fun assign_first :: "int \<Rightarrow> string \<Rightarrow> bool \<Rightarrow> task list \<Rightarrow> task list" where
  "assign_first k ttl cmpl [] = []"
| "assign_first k ttl cmpl (t # ts) =
     (if task_id t = k then t\<lparr>title := ttl, completed := cmpl\<rparr> # ts
      else t # assign_first k ttl cmpl ts)"

text \<open>Lines 186 to 195, \<^verbatim>\<open>id !== 0\<close>.\<close>

definition saveTask_update :: "int \<Rightarrow> string \<Rightarrow> bool \<Rightarrow> task list \<Rightarrow> error + int \<times> task list" where
  "saveTask_update k ttl cmpl data =
     (if find (\<lambda>t. task_id t = k) data = None then Inl TaskNotFound
      else if find (\<lambda>t. title t = ttl \<and> task_id t \<noteq> k) data \<noteq> None then Inl AnotherHasTitle
      else Inr (k, assign_first k ttl cmpl data))"

definition saveTask :: "js_number \<Rightarrow> string \<Rightarrow> bool \<Rightarrow> disk \<Rightarrow> (error + int) \<times> disk" where
  "saveTask i ttl cmpl d =
     (case i of
        JNonInt \<Rightarrow> (Inl InvalidId, d)
      | JInt k \<Rightarrow>
          if k < 0 then (Inl InvalidId, d)
          else if length ttl < 3 then (Inl InvalidTitle, d)
          else
            (case saveTask_load d of
               (Inl e, d1) \<Rightarrow> (Inl e, d1)
             | (Inr data, d1) \<Rightarrow>
                 (case (if k = 0 then saveTask_create ttl cmpl data
                        else saveTask_update k ttl cmpl data) of
                    Inl e \<Rightarrow> (Inl e, d1)
                  | Inr (finalId, data') \<Rightarrow>
                      (case writeFileSync (JSON_stringify data') d1 of
                         None \<Rightarrow> (Inl FS_Error, d1)
                       | Some d2 \<Rightarrow> (Inr finalId, d2)))))"

subsection \<open>\<^verbatim>\<open>DB.insertBulkData\<close>\<close>

definition insertBulkData :: "bulk_data \<Rightarrow> disk \<Rightarrow> (error + unit) \<times> disk" where
  "insertBulkData b d =
     (case (case b of
              BulkArray ts \<Rightarrow> Inr (Array ts)
            | BulkString s \<Rightarrow>
                (case JSON_parse s of None \<Rightarrow> Inl InvalidBulkJSON | Some v \<Rightarrow> Inr v)) of
        Inl e \<Rightarrow> (Inl e, d)
      | Inr NonArray \<Rightarrow> (Inl InvalidBulkNotArray, d)
      | Inr (Array data) \<Rightarrow>
          (case writeFileSync (JSON_stringify data) d of
             None \<Rightarrow> (Inl CannotWriteDB, d)
           | Some d' \<Rightarrow> (Inr (), d')))"

subsection \<open>\<^verbatim>\<open>DB.deleteTaskByID\<close>\<close>

text \<open>
  The file is read without a test for its existence: a missing file, text that is not
  JSON and JSON that is not an array all end in the \<^verbatim>\<open>catch\<close> of line 263. An empty file
  counts as the empty array (\<^verbatim>\<open>raw ? JSON.parse(raw) : []\<close>).
\<close>

definition deleteTaskByID :: "js_number \<Rightarrow> disk \<Rightarrow> (error + bool) \<times> disk" where
  "deleteTaskByID i d =
     (case i of
        JNonInt \<Rightarrow> (Inl InvalidDeleteId, d)
      | JInt k \<Rightarrow>
          if k \<le> 0 then (Inl InvalidDeleteId, d)
          else
            (case readFileSync d of
               None \<Rightarrow> (Inl CannotReadDB, d)
             | Some raw \<Rightarrow>
                 (case (if raw = EmptyText then Some (Array []) else JSON_parse raw) of
                    None \<Rightarrow> (Inl CannotReadDB, d)
                  | Some NonArray \<Rightarrow> (Inl CannotReadDB, d)
                  | Some (Array data) \<Rightarrow>
                      (let initialLength = length data;
                           data' = filter (\<lambda>t. task_id t \<noteq> k) data
                       in if length data' = initialLength then (Inr False, d)
                          else
                            (case writeFileSync (JSON_stringify data') d of
                               None \<Rightarrow> (Inl CannotWriteDB, d)
                             | Some d' \<Rightarrow> (Inr True, d'))))))"

subsection \<open>Properties of a store\<close>

text \<open>The tasks a store holds: the array in the file, none when there is no such array.\<close>

definition store_tasks :: "disk \<Rightarrow> task list" where
  "store_tasks d = (case content d of Some (ArrayText ts) \<Rightarrow> ts | _ \<Rightarrow> [])"

definition distinct_ids :: "disk \<Rightarrow> bool" where
  "distinct_ids d = distinct (map task_id (store_tasks d))"

definition increasing_ids :: "disk \<Rightarrow> bool" where
  "increasing_ids d = sorted_wrt (<) (map task_id (store_tasks d))"

section \<open>Auxiliary facts\<close>

lemma saveTask_load_stored:
  "content d = Some (ArrayText ts) \<Longrightarrow> saveTask_load d = (Inr ts, d)"
  by (simp add: saveTask_load_def DBExists_def existsSync_def readFileSync_def)

lemma saveTask_load_absent:
  "content d = None \<Longrightarrow> writable d \<Longrightarrow>
     saveTask_load d = (Inr [], d\<lparr>content := Some (ArrayText [])\<rparr>)"
  by (simp add: saveTask_load_def DBExists_def existsSync_def createDB_def writeFileSync_def)

lemma js_add_one_exact: "- (2 ^ 53) \<le> n \<Longrightarrow> n < 2 ^ 53 \<Longrightarrow> js_add_one n = n + 1"
  by (simp add: js_add_one_def)

lemma find_title_None:
  "(find (\<lambda>t. title t = ttl) ts = None) = (\<forall>t\<in>set ts. title t \<noteq> ttl)"
  by (auto simp add: find_None_iff)

lemma find_id_None:
  "(find (\<lambda>t. task_id t = k) ts = None) = (\<forall>t\<in>set ts. task_id t \<noteq> k)"
  by (auto simp add: find_None_iff)

lemma find_other_title_None:
  "(find (\<lambda>t. title t = ttl \<and> task_id t \<noteq> k) ts = None) =
     (\<forall>t\<in>set ts. title t = ttl \<longrightarrow> task_id t = k)"
  by (auto simp add: find_None_iff)

lemma assign_first_ids: "map task_id (assign_first k ttl cmpl ts) = map task_id ts"
  by (induction ts) simp_all

lemma assign_first_nth:
  "k \<in> task_id ` set ts \<Longrightarrow>
     \<exists>j<length ts. task_id (ts ! j) = k \<and> (\<forall>j'<j. task_id (ts ! j') \<noteq> k)
        \<and> assign_first k ttl cmpl ts = ts[j := (ts ! j)\<lparr>title := ttl, completed := cmpl\<rparr>]"
proof (induction ts)
  case Nil
  then show ?case by simp
next
  case (Cons t ts)
  show ?case
  proof (cases "task_id t = k")
    case True
    then have "0 < length (t # ts) \<and> task_id ((t # ts) ! 0) = k
        \<and> (\<forall>j'<0. task_id ((t # ts) ! j') \<noteq> k)
        \<and> assign_first k ttl cmpl (t # ts)
            = (t # ts)[0 := ((t # ts) ! 0)\<lparr>title := ttl, completed := cmpl\<rparr>]"
      by simp
    then show ?thesis by blast
  next
    case False
    with Cons.prems have "k \<in> task_id ` set ts" by auto
    from Cons.IH [OF this] obtain j where j: "j < length ts" "task_id (ts ! j) = k"
      "\<forall>j'<j. task_id (ts ! j') \<noteq> k"
      "assign_first k ttl cmpl ts = ts[j := (ts ! j)\<lparr>title := ttl, completed := cmpl\<rparr>]"
      by blast
    have earlier: "\<forall>j'<Suc j. task_id ((t # ts) ! j') \<noteq> k"
    proof (intro allI impI)
      fix j' assume "j' < Suc j"
      then show "task_id ((t # ts) ! j') \<noteq> k"
        using False j(3) by (cases j') simp_all
    qed
    have "Suc j < length (t # ts) \<and> task_id ((t # ts) ! Suc j) = k
        \<and> (\<forall>j'<Suc j. task_id ((t # ts) ! j') \<noteq> k)
        \<and> assign_first k ttl cmpl (t # ts)
            = (t # ts)[Suc j := ((t # ts) ! Suc j)\<lparr>title := ttl, completed := cmpl\<rparr>]"
      using j(1,2,4) earlier False by simp
    then show ?thesis by blast
  qed
qed

lemma store_tasks_written: "store_tasks (d\<lparr>content := Some (ArrayText xs)\<rparr>) = xs"
  by (simp add: store_tasks_def)

lemma store_tasks_absent: "content d = None \<Longrightarrow> store_tasks d = []"
  by (simp add: store_tasks_def)

lemma saveTask_store:
  "store_tasks (snd (saveTask i ttl cmpl d)) = store_tasks d
   \<or> (\<exists>k. i = JInt k \<and> k \<noteq> 0
         \<and> store_tasks (snd (saveTask i ttl cmpl d)) = assign_first k ttl cmpl (store_tasks d))
   \<or> (i = JInt 0
         \<and> store_tasks (snd (saveTask i ttl cmpl d)) =
             store_tasks d @
               [\<lparr>task_id = (if store_tasks d = [] then 1
                             else js_add_one (task_id (last (store_tasks d)))),
                 title = ttl, completed = cmpl\<rparr>])"
proof (cases i)
  case JNonInt
  then show ?thesis by (simp add: saveTask_def)
next
  case (JInt k)
  show ?thesis
  proof (cases "k < 0 \<or> length ttl < 3")
    case True
    then show ?thesis using JInt by (auto simp add: saveTask_def)
  next
    case valid: False
    show ?thesis
    proof (cases "content d")
      case None
      show ?thesis
      proof (cases "writable d")
        case True
        show ?thesis
          using JInt valid None True
          by (simp add: saveTask_def saveTask_load_absent saveTask_create_def
              saveTask_update_def Let_def writeFileSync_def JSON_stringify_def
              store_tasks_written store_tasks_absent)
      next
        case False
        then show ?thesis
          using JInt valid None
          by (simp add: saveTask_def saveTask_load_def DBExists_def existsSync_def
              createDB_def writeFileSync_def)
      qed
    next
      case (Some raw)
      show ?thesis
      proof (cases raw)
        case (ArrayText ts)
        have load: "saveTask_load d = (Inr ts, d)"
          using Some ArrayText by (simp add: saveTask_load_stored)
        have st: "store_tasks d = ts"
          using Some ArrayText by (simp add: store_tasks_def)
        show ?thesis
          using JInt valid
          by (simp add: saveTask_def load st saveTask_create_def saveTask_update_def Let_def
              writeFileSync_def JSON_stringify_def store_tasks_written last_conv_nth)
      next
        case EmptyText
        then show ?thesis
          using JInt valid Some
          by (simp add: saveTask_def saveTask_load_def DBExists_def existsSync_def readFileSync_def)
      next
        case MalformedText
        then show ?thesis
          using JInt valid Some
          by (simp add: saveTask_def saveTask_load_def DBExists_def existsSync_def readFileSync_def)
      next
        case NonArrayText
        then show ?thesis
          using JInt valid Some
          by (simp add: saveTask_def saveTask_load_def DBExists_def existsSync_def readFileSync_def)
      qed
    qed
  qed
qed

lemma saveTask_zero_store:
  "(isl (fst (saveTask (JInt 0) ttl cmpl d))
      \<and> store_tasks (snd (saveTask (JInt 0) ttl cmpl d)) = store_tasks d)
   \<or> (\<not> isl (fst (saveTask (JInt 0) ttl cmpl d))
      \<and> store_tasks (snd (saveTask (JInt 0) ttl cmpl d)) =
           store_tasks d @
             [\<lparr>task_id = (if store_tasks d = [] then 1
                           else js_add_one (task_id (last (store_tasks d)))),
               title = ttl, completed = cmpl\<rparr>])"
proof (cases "length ttl < 3")
  case True
  then show ?thesis by (simp add: saveTask_def)
next
  case valid: False
  show ?thesis
  proof (cases "content d")
    case None
    show ?thesis
    proof (cases "writable d")
      case True
      show ?thesis
        using valid None True
        by (simp add: saveTask_def saveTask_load_absent saveTask_create_def Let_def
            writeFileSync_def JSON_stringify_def store_tasks_written store_tasks_absent)
    next
      case False
      then show ?thesis
        using valid None
        by (simp add: saveTask_def saveTask_load_def DBExists_def existsSync_def
            createDB_def writeFileSync_def)
    qed
  next
    case (Some raw)
    show ?thesis
    proof (cases raw)
      case (ArrayText ts)
      have load: "saveTask_load d = (Inr ts, d)"
        using Some ArrayText by (simp add: saveTask_load_stored)
      have st: "store_tasks d = ts"
        using Some ArrayText by (simp add: store_tasks_def)
      show ?thesis
        using valid
        by (simp add: saveTask_def load st saveTask_create_def Let_def
            writeFileSync_def JSON_stringify_def store_tasks_written last_conv_nth)
    next
      case EmptyText
      then show ?thesis
        using valid Some
        by (simp add: saveTask_def saveTask_load_def DBExists_def existsSync_def readFileSync_def)
    next
      case MalformedText
      then show ?thesis
        using valid Some
        by (simp add: saveTask_def saveTask_load_def DBExists_def existsSync_def readFileSync_def)
    next
      case NonArrayText
      then show ?thesis
        using valid Some
        by (simp add: saveTask_def saveTask_load_def DBExists_def existsSync_def readFileSync_def)
    qed
  qed
qed

lemma deleteTaskByID_store:
  "store_tasks (snd (deleteTaskByID i d)) = store_tasks d
   \<or> (\<exists>k. store_tasks (snd (deleteTaskByID i d)) = filter (\<lambda>t. task_id t \<noteq> k) (store_tasks d))"
proof (cases i)
  case JNonInt
  then show ?thesis by (simp add: deleteTaskByID_def)
next
  case (JInt k)
  show ?thesis
  proof (cases "content d")
    case None
    then show ?thesis using JInt by (simp add: deleteTaskByID_def readFileSync_def)
  next
    case (Some raw)
    show ?thesis
    proof (cases raw)
      case (ArrayText ts)
      then show ?thesis
        using JInt Some
        by (auto simp add: deleteTaskByID_def readFileSync_def Let_def writeFileSync_def
            JSON_stringify_def store_tasks_written store_tasks_def [of d])
    next
      case EmptyText
      then show ?thesis using JInt Some by (simp add: deleteTaskByID_def readFileSync_def)
    next
      case MalformedText
      then show ?thesis using JInt Some by (simp add: deleteTaskByID_def readFileSync_def)
    next
      case NonArrayText
      then show ?thesis using JInt Some by (simp add: deleteTaskByID_def readFileSync_def)
    qed
  qed
qed

lemma distinct_ids_filter:
  "distinct (map task_id ts) \<Longrightarrow> distinct (map task_id (filter p ts))"
  by (rule distinct_map_filter)

lemma increasing_ids_filter:
  "sorted_wrt (<) (map task_id ts) \<Longrightarrow> sorted_wrt (<) (map task_id (filter p ts))"
  by (induction ts) auto

lemma distinct_ids_append:
  "distinct (map task_id (ts @ [\<lparr>task_id = n, title = ttl, completed = cmpl\<rparr>])) =
     (distinct (map task_id ts) \<and> (\<forall>t\<in>set ts. task_id t \<noteq> n))"
  by auto

lemma increasing_ids_last:
  "sorted_wrt (<) (map task_id ts) \<Longrightarrow> t \<in> set ts \<Longrightarrow> task_id t \<le> task_id (last ts)"
  by (induction ts) (auto simp add: less_imp_le)

lemma increasing_ids_append:
  assumes "sorted_wrt (<) (map task_id ts)" and "ts \<noteq> [] \<longrightarrow> task_id (last ts) < n"
  shows "sorted_wrt (<) (map task_id (ts @ [\<lparr>task_id = n, title = ttl, completed = cmpl\<rparr>]))"
proof (cases "ts = []")
  case True
  then show ?thesis by simp
next
  case False
  have "\<forall>t\<in>set ts. task_id t < n"
    using increasing_ids_last [OF assms(1)] assms(2) False by fastforce
  then show ?thesis using assms(1) by (simp add: sorted_wrt_append)
qed

section \<open>Creating a task\<close>

text \<open>
  C1 (as amended). On a stored collection \<open>ts\<close>, \<^verbatim>\<open>saveTask\<close> with id 0 and a title of at
  least three characters that no stored task has returns the id of the \<^emph>\<open>last\<close> stored
  task plus one, the sum being that of JavaScript numbers, or 1 when the collection is
  empty, and appends the task with that id and the given title and flag; nothing else
  in the store changes. When the last id is at least \<open>-2^53\<close> and below \<open>2^53\<close> the sum is
  exact; when moreover no stored id is greater than the last task's id, the new id is
  the maximum stored id plus one.
\<close>

theorem saveTask_new_id:
  assumes "content d = Some (ArrayText ts)" and "writable d" and "3 \<le> length ttl"
    and "\<forall>t\<in>set ts. title t \<noteq> ttl"
  shows "\<exists>n. saveTask (JInt 0) ttl cmpl d =
            (Inr n, d\<lparr>content := Some (ArrayText
               (ts @ [\<lparr>task_id = n, title = ttl, completed = cmpl\<rparr>]))\<rparr>)
          \<and> n = (if ts = [] then 1 else js_add_one (task_id (last ts)))
          \<and> (ts \<noteq> [] \<and> - (2 ^ 53) \<le> task_id (last ts) \<and> task_id (last ts) < 2 ^ 53 \<longrightarrow>
               n = task_id (last ts) + 1)
          \<and> ((\<forall>t\<in>set ts. task_id t \<le> task_id (last ts))
               \<and> (ts \<noteq> [] \<longrightarrow> - (2 ^ 53) \<le> task_id (last ts) \<and> task_id (last ts) < 2 ^ 53) \<longrightarrow>
               n = (if ts = [] then 1 else Max (task_id ` set ts) + 1))"
proof -
  let ?n = "if ts = [] then 1 else js_add_one (task_id (last ts))"
  have fresh: "find (\<lambda>t. title t = ttl) ts = None"
    using assms(4) by (simp add: find_title_None)
  have create: "saveTask_create ttl cmpl ts =
      Inr (?n, ts @ [\<lparr>task_id = ?n, title = ttl, completed = cmpl\<rparr>])"
    by (simp add: saveTask_create_def Let_def fresh last_conv_nth)
  have run: "saveTask (JInt 0) ttl cmpl d =
      (Inr ?n, d\<lparr>content := Some (ArrayText
         (ts @ [\<lparr>task_id = ?n, title = ttl, completed = cmpl\<rparr>]))\<rparr>)"
    using assms(2,3)
    by (simp add: saveTask_def saveTask_load_stored [OF assms(1)] create
        writeFileSync_def JSON_stringify_def)
  have exact: "?n = task_id (last ts) + 1"
    if "ts \<noteq> []" and "- (2 ^ 53) \<le> task_id (last ts)" and "task_id (last ts) < 2 ^ 53"
    using that by (simp add: js_add_one_exact)
  have top: "Max (task_id ` set ts) = task_id (last ts)"
    if "ts \<noteq> []" and "\<forall>t\<in>set ts. task_id t \<le> task_id (last ts)"
  proof (rule Max_eqI)
    show "finite (task_id ` set ts)" by simp
    show "\<And>y. y \<in> task_id ` set ts \<Longrightarrow> y \<le> task_id (last ts)" using that(2) by auto
    show "task_id (last ts) \<in> task_id ` set ts" using that(1) by simp
  qed
  have c3: "ts \<noteq> [] \<and> - (2 ^ 53) \<le> task_id (last ts) \<and> task_id (last ts) < 2 ^ 53 \<longrightarrow>
      ?n = task_id (last ts) + 1"
    using exact by blast
  have c4: "(\<forall>t\<in>set ts. task_id t \<le> task_id (last ts))
      \<and> (ts \<noteq> [] \<longrightarrow> - (2 ^ 53) \<le> task_id (last ts) \<and> task_id (last ts) < 2 ^ 53) \<longrightarrow>
      ?n = (if ts = [] then 1 else Max (task_id ` set ts) + 1)"
  proof (cases "ts = []")
    case True
    then show ?thesis by simp
  next
    case False
    show ?thesis
    proof
      assume a: "(\<forall>t\<in>set ts. task_id t \<le> task_id (last ts))
        \<and> (ts \<noteq> [] \<longrightarrow> - (2 ^ 53) \<le> task_id (last ts) \<and> task_id (last ts) < 2 ^ 53)"
      have "?n = task_id (last ts) + 1" using exact False a by blast
      moreover have "Max (task_id ` set ts) = task_id (last ts)" using top False a by blast
      ultimately show "?n = (if ts = [] then 1 else Max (task_id ` set ts) + 1)"
        using False by simp
    qed
  qed
  from run c3 c4 show ?thesis by blast
qed

text \<open>C1, witness: a third task saved after the tasks 1 and 4 gets the id 5.\<close>

theorem saveTask_new_id_witness:
  "saveTask (JInt 0) ''walk dog'' False
     \<lparr>content = Some (ArrayText [\<lparr>task_id = 1, title = ''buy milk'', completed = True\<rparr>,
                                 \<lparr>task_id = 4, title = ''pay rent'', completed = False\<rparr>]),
      writable = True\<rparr>
   = (Inr 5,
      \<lparr>content = Some (ArrayText [\<lparr>task_id = 1, title = ''buy milk'', completed = True\<rparr>,
                                 \<lparr>task_id = 4, title = ''pay rent'', completed = False\<rparr>,
                                 \<lparr>task_id = 5, title = ''walk dog'', completed = False\<rparr>]),
      writable = True\<rparr>)"
  using saveTask_new_id [of
      "\<lparr>content = Some (ArrayText [\<lparr>task_id = 1, title = ''buy milk'', completed = True\<rparr>,
                                 \<lparr>task_id = 4, title = ''pay rent'', completed = False\<rparr>]),
        writable = True\<rparr>"
      "[\<lparr>task_id = 1, title = ''buy milk'', completed = True\<rparr>,
        \<lparr>task_id = 4, title = ''pay rent'', completed = False\<rparr>]"
      "''walk dog''" False]
  by (simp add: js_add_one_def)

text \<open>
  C1, counterexample to the claim as written (maximum id plus one): in a store whose
  tasks have the ids 5 and 2, in this order, the new task gets the id 3, not 6.
\<close>

theorem saveTask_new_id_not_max:
  "saveTask (JInt 0) ''walk dog'' False
     \<lparr>content = Some (ArrayText [\<lparr>task_id = 5, title = ''buy milk'', completed = False\<rparr>,
                                 \<lparr>task_id = 2, title = ''pay rent'', completed = False\<rparr>]),
      writable = True\<rparr>
   = (Inr 3,
      \<lparr>content = Some (ArrayText [\<lparr>task_id = 5, title = ''buy milk'', completed = False\<rparr>,
                                 \<lparr>task_id = 2, title = ''pay rent'', completed = False\<rparr>,
                                 \<lparr>task_id = 3, title = ''walk dog'', completed = False\<rparr>]),
      writable = True\<rparr>)
   \<and> Max (task_id ` set [\<lparr>task_id = 5, title = ''buy milk'', completed = False\<rparr>,
                          \<lparr>task_id = 2, title = ''pay rent'', completed = False\<rparr>]) + 1 = 6"
  by (simp add: saveTask_def saveTask_load_def DBExists_def existsSync_def readFileSync_def
      saveTask_create_def js_add_one_def Let_def writeFileSync_def JSON_stringify_def)

text \<open>
  The sum of line 177 at the end of the exact range: after a last id of \<open>2^53\<close>
  (9007199254740992) the new task gets the id \<open>2^53\<close> again.
\<close>

theorem saveTask_new_id_rounded:
  "saveTask (JInt 0) ''walk dog'' False
     \<lparr>content = Some (ArrayText
        [\<lparr>task_id = 9007199254740992, title = ''buy milk'', completed = False\<rparr>]),
      writable = True\<rparr>
   = (Inr 9007199254740992,
      \<lparr>content = Some (ArrayText
        [\<lparr>task_id = 9007199254740992, title = ''buy milk'', completed = False\<rparr>,
         \<lparr>task_id = 9007199254740992, title = ''walk dog'', completed = False\<rparr>]),
       writable = True\<rparr>)"
  by (simp add: saveTask_def saveTask_load_def DBExists_def existsSync_def readFileSync_def
      saveTask_create_def js_add_one_def Let_def writeFileSync_def JSON_stringify_def)

section \<open>Validation of the title\<close>

text \<open>
  C4. Whatever the id, the flag and the state of the file, \<^verbatim>\<open>saveTask\<close> with a title of
  fewer than three characters throws: the id error when the id is negative or no
  integer, the title error otherwise. Both checks precede every access to the file, so
  the file is as it was; an absent file is not even created.
\<close>

theorem saveTask_short_title:
  "length ttl < 3 \<Longrightarrow>
     saveTask i ttl cmpl d =
       (Inl (case i of JNonInt \<Rightarrow> InvalidId
             | JInt k \<Rightarrow> if k < 0 then InvalidId else InvalidTitle), d)"
  by (simp add: saveTask_def split: js_number.splits)

text \<open>C4, witness: the title "ab" on a store of one task.\<close>

theorem saveTask_short_title_witness:
  "saveTask (JInt 0) ''ab'' True
     \<lparr>content = Some (ArrayText [\<lparr>task_id = 1, title = ''buy milk'', completed = True\<rparr>]),
      writable = True\<rparr>
   = (Inl InvalidTitle,
      \<lparr>content = Some (ArrayText [\<lparr>task_id = 1, title = ''buy milk'', completed = True\<rparr>]),
       writable = True\<rparr>)"
  using saveTask_short_title [of "''ab''" "JInt 0" True
      "\<lparr>content = Some (ArrayText [\<lparr>task_id = 1, title = ''buy milk'', completed = True\<rparr>]),
        writable = True\<rparr>"]
  by simp

section \<open>Deleting\<close>

text \<open>
  C5. On a stored collection, \<^verbatim>\<open>deleteTaskByID\<close> with a positive integer id that no stored
  task has returns \<^verbatim>\<open>false\<close> and leaves the file exactly as it was: nothing is written.
\<close>

theorem deleteTaskByID_missing:
  assumes "content d = Some (ArrayText ts)" and "0 < k" and "\<forall>t\<in>set ts. task_id t \<noteq> k"
  shows "deleteTaskByID (JInt k) d = (Inr False, d)"
  using assms by (simp add: deleteTaskByID_def readFileSync_def)

text \<open>C5, witness: id 7 in a store that holds the ids 1 and 4.\<close>

theorem deleteTaskByID_missing_witness:
  "deleteTaskByID (JInt 7)
     \<lparr>content = Some (ArrayText [\<lparr>task_id = 1, title = ''buy milk'', completed = True\<rparr>,
                                 \<lparr>task_id = 4, title = ''pay rent'', completed = False\<rparr>]),
      writable = True\<rparr>
   = (Inr False,
      \<lparr>content = Some (ArrayText [\<lparr>task_id = 1, title = ''buy milk'', completed = True\<rparr>,
                                 \<lparr>task_id = 4, title = ''pay rent'', completed = False\<rparr>]),
       writable = True\<rparr>)"
  using deleteTaskByID_missing [of
      "\<lparr>content = Some (ArrayText [\<lparr>task_id = 1, title = ''buy milk'', completed = True\<rparr>,
                                  \<lparr>task_id = 4, title = ''pay rent'', completed = False\<rparr>]),
        writable = True\<rparr>"
      "[\<lparr>task_id = 1, title = ''buy milk'', completed = True\<rparr>,
        \<lparr>task_id = 4, title = ''pay rent'', completed = False\<rparr>]" 7]
  by simp

text \<open>
  C10. \<^verbatim>\<open>deleteTaskByID\<close> throws "task id must be a positive integer" for every id that is
  not a positive integer (zero, a negative integer, a number that is no integer),
  whatever the state of the file, and the file is as it was. So no call can delete a
  stored task whose id is 0.
\<close>

theorem deleteTaskByID_not_positive:
  "\<not> (\<exists>k. 0 < k \<and> i = JInt k) \<Longrightarrow> deleteTaskByID i d = (Inl InvalidDeleteId, d)"
  by (cases i) (auto simp add: deleteTaskByID_def)

text \<open>C10, witness: id 0 on a store that holds a task with the id 0.\<close>

theorem deleteTaskByID_not_positive_witness:
  "deleteTaskByID (JInt 0)
     \<lparr>content = Some (ArrayText [\<lparr>task_id = 0, title = ''buy milk'', completed = False\<rparr>]),
      writable = True\<rparr>
   = (Inl InvalidDeleteId,
      \<lparr>content = Some (ArrayText [\<lparr>task_id = 0, title = ''buy milk'', completed = False\<rparr>]),
       writable = True\<rparr>)"
  using deleteTaskByID_not_positive [of "JInt 0"
      "\<lparr>content = Some (ArrayText [\<lparr>task_id = 0, title = ''buy milk'', completed = False\<rparr>]),
        writable = True\<rparr>"]
  by simp

section \<open>Writing and reading back\<close>

text \<open>
  C6. When the file can be written, \<^verbatim>\<open>insertBulkData\<close> with an array of tasks succeeds, and
  \<^verbatim>\<open>getAllTasks\<close> on the resulting file returns the same tasks: the same number, in the
  same order, with the same id, title and flag (the lists are equal). Reading changes
  nothing.
\<close>

theorem bulk_round_trip:
  assumes "writable d"
  shows "\<exists>d'. insertBulkData (BulkArray ts) d = (Inr (), d') \<and> getAllTasks d' = (Inr ts, d')"
  using assms
  by (simp add: insertBulkData_def writeFileSync_def JSON_stringify_def getAllTasks_def
      DBExists_def existsSync_def readFileSync_def)

text \<open>C6, witness: two tasks written over an absent file.\<close>

theorem bulk_round_trip_witness:
  "\<exists>d'. insertBulkData
          (BulkArray [\<lparr>task_id = 2, title = ''pay rent'', completed = False\<rparr>,
                      \<lparr>task_id = 1, title = ''buy milk'', completed = True\<rparr>])
          \<lparr>content = None, writable = True\<rparr> = (Inr (), d')
      \<and> getAllTasks d' =
          (Inr [\<lparr>task_id = 2, title = ''pay rent'', completed = False\<rparr>,
                \<lparr>task_id = 1, title = ''buy milk'', completed = True\<rparr>], d')"
  using bulk_round_trip [of "\<lparr>content = None, writable = True\<rparr>"
      "[\<lparr>task_id = 2, title = ''pay rent'', completed = False\<rparr>,
        \<lparr>task_id = 1, title = ''buy milk'', completed = True\<rparr>]"]
  by simp

section \<open>Titles are not shared\<close>

text \<open>
  C3 (as amended). On a stored collection that holds a task with the title \<open>ttl\<close>,
  \<^verbatim>\<open>saveTask\<close> with that title throws, and the file is as it was, when the id is 0 and
  when the id is anything but the id of that task: line 191 tells tasks apart by their
  ids. The error is a validation error of the id or the title, "A task with this title
  already exists.", "Task not found" or "Another task already has this title."
\<close>

theorem saveTask_taken_title:
  assumes "content d = Some (ArrayText ts)" and "t \<in> set ts" and "title t = ttl"
    and "i = JInt 0 \<or> i \<noteq> JInt (task_id t)"
  shows "\<exists>e. saveTask i ttl cmpl d = (Inl e, d)
           \<and> e \<in> {InvalidId, InvalidTitle, TitleExists, TaskNotFound, AnotherHasTitle}"
proof (cases i)
  case JNonInt
  then show ?thesis by (simp add: saveTask_def)
next
  case (JInt k)
  have taken: "find (\<lambda>t. title t = ttl) ts \<noteq> None"
    using assms(2,3) by (auto simp add: find_title_None)
  have other: "k \<noteq> 0 \<Longrightarrow> find (\<lambda>t. title t = ttl \<and> task_id t \<noteq> k) ts \<noteq> None"
    using assms(2,3,4) JInt by (auto simp add: find_other_title_None)
  show ?thesis
    using JInt taken other
    by (auto simp add: saveTask_def saveTask_load_stored [OF assms(1)]
        saveTask_create_def saveTask_update_def Let_def)
qed

text \<open>
  C3, witness: a second task with the title "buy milk".
\<close>

theorem saveTask_taken_title_witness:
  "\<exists>e. saveTask (JInt 0) ''buy milk'' False
          \<lparr>content = Some (ArrayText [\<lparr>task_id = 1, title = ''buy milk'', completed = True\<rparr>,
                                      \<lparr>task_id = 4, title = ''pay rent'', completed = False\<rparr>]),
           writable = True\<rparr>
        = (Inl e,
           \<lparr>content = Some (ArrayText [\<lparr>task_id = 1, title = ''buy milk'', completed = True\<rparr>,
                                      \<lparr>task_id = 4, title = ''pay rent'', completed = False\<rparr>]),
            writable = True\<rparr>)
      \<and> e \<in> {InvalidId, InvalidTitle, TitleExists, TaskNotFound, AnotherHasTitle}"
  using saveTask_taken_title [of
      "\<lparr>content = Some (ArrayText [\<lparr>task_id = 1, title = ''buy milk'', completed = True\<rparr>,
                                  \<lparr>task_id = 4, title = ''pay rent'', completed = False\<rparr>]),
        writable = True\<rparr>"
      "[\<lparr>task_id = 1, title = ''buy milk'', completed = True\<rparr>,
        \<lparr>task_id = 4, title = ''pay rent'', completed = False\<rparr>]"
      "\<lparr>task_id = 1, title = ''buy milk'', completed = True\<rparr>" "''buy milk''" "JInt 0" False]
  by simp

text \<open>
  C3, counterexample to the claim as written (the id of any different task): in a store
  where two tasks have the id 1, \<^verbatim>\<open>saveTask\<close> with the id 1 and the title of the second
  task finds no task with that title and another id, gives the title to the first
  task, and succeeds: two tasks have the same title.
\<close>

theorem saveTask_taken_title_repeated_id:
  "saveTask (JInt 1) ''pay rent'' False
     \<lparr>content = Some (ArrayText [\<lparr>task_id = 1, title = ''buy milk'', completed = False\<rparr>,
                                 \<lparr>task_id = 1, title = ''pay rent'', completed = False\<rparr>]),
      writable = True\<rparr>
   = (Inr 1,
      \<lparr>content = Some (ArrayText [\<lparr>task_id = 1, title = ''pay rent'', completed = False\<rparr>,
                                 \<lparr>task_id = 1, title = ''pay rent'', completed = False\<rparr>]),
       writable = True\<rparr>)"
  by (simp add: saveTask_def saveTask_load_def DBExists_def existsSync_def readFileSync_def
      saveTask_update_def writeFileSync_def JSON_stringify_def)

section \<open>Updating a task\<close>

text \<open>
  C8 (as amended). On a stored collection, \<^verbatim>\<open>saveTask\<close> with a nonzero id that no stored
  task has throws and leaves the file as it was. The error is "Task not found" when
  the id is a positive integer and the title has at least three characters; a negative
  id or a number that is no integer gives the id error, and a shorter title gives the
  title error, since both checks come first.
\<close>

theorem saveTask_unknown_id:
  assumes "content d = Some (ArrayText ts)" and "i \<noteq> JInt 0"
    and "\<forall>t\<in>set ts. JInt (task_id t) \<noteq> i"
  shows "saveTask i ttl cmpl d =
           (Inl (case i of JNonInt \<Rightarrow> InvalidId
                 | JInt k \<Rightarrow> if k < 0 then InvalidId
                             else if length ttl < 3 then InvalidTitle else TaskNotFound), d)"
proof (cases i)
  case JNonInt
  then show ?thesis by (simp add: saveTask_def)
next
  case (JInt k)
  have "find (\<lambda>t. task_id t = k) ts = None"
    using assms(3) JInt by (simp add: find_id_None)
  then show ?thesis
    using JInt assms(2)
    by (simp add: saveTask_def saveTask_load_stored [OF assms(1)] saveTask_update_def)
qed

text \<open>
  C8, witness: id 7 in a store that holds the ids 1 and 4.
\<close>

theorem saveTask_unknown_id_witness:
  "saveTask (JInt 7) ''walk dog'' True
     \<lparr>content = Some (ArrayText [\<lparr>task_id = 1, title = ''buy milk'', completed = True\<rparr>,
                                 \<lparr>task_id = 4, title = ''pay rent'', completed = False\<rparr>]),
      writable = True\<rparr>
   = (Inl TaskNotFound,
      \<lparr>content = Some (ArrayText [\<lparr>task_id = 1, title = ''buy milk'', completed = True\<rparr>,
                                 \<lparr>task_id = 4, title = ''pay rent'', completed = False\<rparr>]),
       writable = True\<rparr>)"
  using saveTask_unknown_id [of
      "\<lparr>content = Some (ArrayText [\<lparr>task_id = 1, title = ''buy milk'', completed = True\<rparr>,
                                  \<lparr>task_id = 4, title = ''pay rent'', completed = False\<rparr>]),
        writable = True\<rparr>"
      "[\<lparr>task_id = 1, title = ''buy milk'', completed = True\<rparr>,
        \<lparr>task_id = 4, title = ''pay rent'', completed = False\<rparr>]"
      "JInt 7" "''walk dog''" True]
  by simp

text \<open>
  C8, counterexample to the claim as written ("Task not found" for every nonzero id
  that matches no task): the id -1 gives the id error, and the id 7 with the title
  "ab" gives the title error.
\<close>

theorem saveTask_unknown_id_other_error:
  "saveTask (JInt (- 1)) ''walk dog'' True
     \<lparr>content = Some (ArrayText [\<lparr>task_id = 1, title = ''buy milk'', completed = True\<rparr>]),
      writable = True\<rparr>
   = (Inl InvalidId,
      \<lparr>content = Some (ArrayText [\<lparr>task_id = 1, title = ''buy milk'', completed = True\<rparr>]),
       writable = True\<rparr>)
   \<and> saveTask (JInt 7) ''ab'' True
     \<lparr>content = Some (ArrayText [\<lparr>task_id = 1, title = ''buy milk'', completed = True\<rparr>]),
      writable = True\<rparr>
   = (Inl InvalidTitle,
      \<lparr>content = Some (ArrayText [\<lparr>task_id = 1, title = ''buy milk'', completed = True\<rparr>]),
       writable = True\<rparr>)"
  by (simp add: saveTask_def)

text \<open>
  C9 (as amended). On a stored collection that holds a task with the \<^emph>\<open>positive\<close> id \<open>k\<close>,
  \<^verbatim>\<open>saveTask\<close> with that id, a title of at least three characters that no task with
  another id has, and a flag returns \<open>k\<close> and writes the array in which the first task with
  the id \<open>k\<close> (position \<open>j\<close>) has the new title and flag. The array has the same length
  and the same ids in the same order, the task at \<open>j\<close> keeps its id, and every other
  position holds the task it held.
\<close>

theorem saveTask_update_frame:
  assumes "content d = Some (ArrayText ts)" and "writable d" and "0 < k"
    and "k \<in> task_id ` set ts" and "3 \<le> length ttl"
    and "\<forall>t\<in>set ts. title t = ttl \<longrightarrow> task_id t = k"
  shows "\<exists>j ts'. saveTask (JInt k) ttl cmpl d = (Inr k, d\<lparr>content := Some (ArrayText ts')\<rparr>)
           \<and> j < length ts \<and> task_id (ts ! j) = k \<and> (\<forall>j'<j. task_id (ts ! j') \<noteq> k)
           \<and> ts' = ts[j := (ts ! j)\<lparr>title := ttl, completed := cmpl\<rparr>]
           \<and> length ts' = length ts \<and> map task_id ts' = map task_id ts
           \<and> (\<forall>m<length ts. m \<noteq> j \<longrightarrow> ts' ! m = ts ! m)"
proof -
  have found: "find (\<lambda>t. task_id t = k) ts \<noteq> None"
    using assms(4) by (auto simp add: find_id_None)
  have free: "find (\<lambda>t. title t = ttl \<and> task_id t \<noteq> k) ts = None"
    using assms(6) by (simp add: find_other_title_None)
  have run: "saveTask (JInt k) ttl cmpl d =
      (Inr k, d\<lparr>content := Some (ArrayText (assign_first k ttl cmpl ts))\<rparr>)"
    using assms(2,3,5) found free
    by (simp add: saveTask_def saveTask_load_stored [OF assms(1)] saveTask_update_def
        writeFileSync_def JSON_stringify_def)
  from assign_first_nth [OF assms(4)] obtain j where j: "j < length ts" "task_id (ts ! j) = k"
      "\<forall>j'<j. task_id (ts ! j') \<noteq> k"
      "assign_first k ttl cmpl ts = ts[j := (ts ! j)\<lparr>title := ttl, completed := cmpl\<rparr>]"
    by blast
  have ids: "map task_id (assign_first k ttl cmpl ts) = map task_id ts"
    by (rule assign_first_ids)
  have rest: "\<forall>m<length ts. m \<noteq> j \<longrightarrow> (assign_first k ttl cmpl ts) ! m = ts ! m"
    by (simp add: j(4))
  have len: "length (assign_first k ttl cmpl ts) = length ts"
    by (simp add: j(4))
  show ?thesis
    using run j ids rest len by blast
qed

text \<open>
  C9, witness: the task 4 of three tasks gets a new title and flag.
\<close>

theorem saveTask_update_frame_witness:
  "saveTask (JInt 4) ''walk dog'' True
     \<lparr>content = Some (ArrayText [\<lparr>task_id = 1, title = ''buy milk'', completed = True\<rparr>,
                                 \<lparr>task_id = 4, title = ''pay rent'', completed = False\<rparr>,
                                 \<lparr>task_id = 6, title = ''call mum'', completed = False\<rparr>]),
      writable = True\<rparr>
   = (Inr 4,
      \<lparr>content = Some (ArrayText [\<lparr>task_id = 1, title = ''buy milk'', completed = True\<rparr>,
                                 \<lparr>task_id = 4, title = ''walk dog'', completed = True\<rparr>,
                                 \<lparr>task_id = 6, title = ''call mum'', completed = False\<rparr>]),
       writable = True\<rparr>)"
proof -
  let ?ts = "[\<lparr>task_id = 1, title = ''buy milk'', completed = True\<rparr>,
              \<lparr>task_id = 4, title = ''pay rent'', completed = False\<rparr>,
              \<lparr>task_id = 6, title = ''call mum'', completed = False\<rparr>]"
  let ?d = "\<lparr>content = Some (ArrayText ?ts), writable = True\<rparr>"
  have h1: "content ?d = Some (ArrayText ?ts)" by simp
  have h2: "writable ?d" by simp
  have h3: "(0::int) < 4" by simp
  have h4: "4 \<in> task_id ` set ?ts" by simp
  have h5: "3 \<le> length ''walk dog''" by simp
  have h6: "\<forall>t\<in>set ?ts. title t = ''walk dog'' \<longrightarrow> task_id t = 4" by simp
  from saveTask_update_frame [OF h1 h2 h3 h4 h5 h6, of True]
  obtain j ts' where run: "saveTask (JInt 4) ''walk dog'' True ?d
        = (Inr 4, ?d\<lparr>content := Some (ArrayText ts')\<rparr>)"
      and j: "j < length ?ts" "task_id (?ts ! j) = 4"
      and ts': "ts' = ?ts[j := (?ts ! j)\<lparr>title := ''walk dog'', completed := True\<rparr>]"
    by blast
  from j(1) have "j = 0 \<or> j = 1 \<or> j = 2" by auto
  with j(2) have "j = 1" by auto
  with ts' have "ts' = [\<lparr>task_id = 1, title = ''buy milk'', completed = True\<rparr>,
                        \<lparr>task_id = 4, title = ''walk dog'', completed = True\<rparr>,
                        \<lparr>task_id = 6, title = ''call mum'', completed = False\<rparr>]"
    by simp
  with run show ?thesis by simp
qed

text \<open>
  C9, counterexample to the claim as written (every id \<open>k\<close> of a stored task): a store
  may hold a task with the id 0, and \<^verbatim>\<open>saveTask\<close> with the id 0 does not update it but
  appends a new task, so the array grows.
\<close>

theorem saveTask_id_zero_stored:
  "saveTask (JInt 0) ''pay rent'' True
     \<lparr>content = Some (ArrayText [\<lparr>task_id = 0, title = ''buy milk'', completed = False\<rparr>]),
      writable = True\<rparr>
   = (Inr 1,
      \<lparr>content = Some (ArrayText [\<lparr>task_id = 0, title = ''buy milk'', completed = False\<rparr>,
                                 \<lparr>task_id = 1, title = ''pay rent'', completed = True\<rparr>]),
       writable = True\<rparr>)"
  by (simp add: saveTask_def saveTask_load_def DBExists_def existsSync_def readFileSync_def
      saveTask_create_def js_add_one_def Let_def writeFileSync_def JSON_stringify_def)

section \<open>Uniqueness of ids\<close>

text \<open>
  C2 (as amended). From every state of the file:
  \<^item> \<^verbatim>\<open>deleteTaskByID\<close> keeps the ids pairwise distinct;
  \<^item> \<^verbatim>\<open>saveTask\<close> with a nonzero id keeps the ids pairwise distinct;
  \<^item> \<^verbatim>\<open>saveTask\<close> with the id 0, from pairwise distinct ids, leaves them pairwise
    distinct exactly when it throws or the new id, the last id plus one as a JavaScript
    number, is not the id of a stored task; this is so when no stored id is greater
    than the last id and the last id is at least \<open>-2^53\<close> and below \<open>2^53\<close>;
  \<^item> ids that increase strictly along the array are pairwise distinct;
    \<^verbatim>\<open>deleteTaskByID\<close> keeps them strictly increasing, and so does \<^verbatim>\<open>saveTask\<close> when the last
    id is at least \<open>-2^53\<close> and below \<open>2^53\<close>;
  \<^item> \<^verbatim>\<open>insertBulkData\<close> with an array replaces the content by that array without
    looking at it, so afterwards the ids are pairwise distinct exactly when those of
    the array are.
\<close>

theorem ids_preserved:
  "(distinct_ids d \<longrightarrow> distinct_ids (snd (deleteTaskByID i d)))
   \<and> (distinct_ids d \<and> i \<noteq> JInt 0 \<longrightarrow> distinct_ids (snd (saveTask i ttl cmpl d)))
   \<and> (distinct_ids d \<longrightarrow>
        distinct_ids (snd (saveTask (JInt 0) ttl cmpl d)) =
          (isl (fst (saveTask (JInt 0) ttl cmpl d))
           \<or> (\<forall>t\<in>set (store_tasks d).
                 task_id t \<noteq> js_add_one (task_id (last (store_tasks d))))))
   \<and> (distinct_ids d
        \<and> (\<forall>t\<in>set (store_tasks d). task_id t \<le> task_id (last (store_tasks d)))
        \<and> (store_tasks d \<noteq> [] \<longrightarrow>
             - (2 ^ 53) \<le> task_id (last (store_tasks d))
             \<and> task_id (last (store_tasks d)) < 2 ^ 53)
        \<longrightarrow> distinct_ids (snd (saveTask (JInt 0) ttl cmpl d)))
   \<and> (increasing_ids d \<longrightarrow>
        distinct_ids d \<and> increasing_ids (snd (deleteTaskByID i d)))
   \<and> (increasing_ids d
        \<and> (store_tasks d \<noteq> [] \<longrightarrow>
             - (2 ^ 53) \<le> task_id (last (store_tasks d))
             \<and> task_id (last (store_tasks d)) < 2 ^ 53)
        \<longrightarrow> increasing_ids (snd (saveTask i ttl cmpl d)))
   \<and> (writable d \<longrightarrow>
        insertBulkData (BulkArray ts) d = (Inr (), d\<lparr>content := Some (ArrayText ts)\<rparr>)
          \<and> distinct_ids (snd (insertBulkData (BulkArray ts) d)) = distinct (map task_id ts))"
proof -
  let ?old = "store_tasks d"
  let ?n = "if ?old = [] then 1 else js_add_one (task_id (last ?old))"
  let ?new = "?old @ [\<lparr>task_id = ?n, title = ttl, completed = cmpl\<rparr>]"
  have next_above: "?old \<noteq> [] \<longrightarrow> task_id (last ?old) < ?n"
    if "?old \<noteq> [] \<longrightarrow>
          - (2 ^ 53) \<le> task_id (last ?old) \<and> task_id (last ?old) < 2 ^ 53"
    using that by (simp add: js_add_one_exact)
  have c1: "distinct_ids d \<longrightarrow> distinct_ids (snd (deleteTaskByID i d))"
    using deleteTaskByID_store [of i d] by (auto simp add: distinct_ids_def distinct_ids_filter)
  have c2: "distinct_ids d \<and> i \<noteq> JInt 0 \<longrightarrow> distinct_ids (snd (saveTask i ttl cmpl d))"
    using saveTask_store [of i ttl cmpl d] by (auto simp add: distinct_ids_def assign_first_ids)
  have c3: "distinct_ids d \<longrightarrow>
        distinct_ids (snd (saveTask (JInt 0) ttl cmpl d)) =
          (isl (fst (saveTask (JInt 0) ttl cmpl d))
           \<or> (\<forall>t\<in>set ?old. task_id t \<noteq> js_add_one (task_id (last ?old))))"
  proof
    assume dist: "distinct_ids d"
    from saveTask_zero_store [of ttl cmpl d]
    consider (thrown) "isl (fst (saveTask (JInt 0) ttl cmpl d))"
        "store_tasks (snd (saveTask (JInt 0) ttl cmpl d)) = ?old"
      | (stored) "\<not> isl (fst (saveTask (JInt 0) ttl cmpl d))"
        "store_tasks (snd (saveTask (JInt 0) ttl cmpl d)) = ?new"
      by blast
    then show "distinct_ids (snd (saveTask (JInt 0) ttl cmpl d)) =
          (isl (fst (saveTask (JInt 0) ttl cmpl d))
           \<or> (\<forall>t\<in>set ?old. task_id t \<noteq> js_add_one (task_id (last ?old))))"
    proof cases
      case thrown
      then show ?thesis using dist by (simp add: distinct_ids_def)
    next
      case stored
      have "distinct (map task_id ?new) = (\<forall>t\<in>set ?old. task_id t \<noteq> ?n)"
        using dist by (simp only: distinct_ids_append distinct_ids_def simp_thms)
      also have "\<dots> = (\<forall>t\<in>set ?old. task_id t \<noteq> js_add_one (task_id (last ?old)))"
        by (cases "?old = []") simp_all
      finally show ?thesis using stored by (simp add: distinct_ids_def)
    qed
  qed
  have c4: "distinct_ids d
        \<and> (\<forall>t\<in>set ?old. task_id t \<le> task_id (last ?old))
        \<and> (?old \<noteq> [] \<longrightarrow> - (2 ^ 53) \<le> task_id (last ?old) \<and> task_id (last ?old) < 2 ^ 53)
        \<longrightarrow> distinct_ids (snd (saveTask (JInt 0) ttl cmpl d))"
  proof
    assume a: "distinct_ids d
        \<and> (\<forall>t\<in>set ?old. task_id t \<le> task_id (last ?old))
        \<and> (?old \<noteq> [] \<longrightarrow> - (2 ^ 53) \<le> task_id (last ?old) \<and> task_id (last ?old) < 2 ^ 53)"
    have "\<forall>t\<in>set ?old. task_id t \<noteq> js_add_one (task_id (last ?old))"
    proof
      fix t assume t: "t \<in> set ?old"
      then have "?old \<noteq> []" by auto
      then have "js_add_one (task_id (last ?old)) = task_id (last ?old) + 1"
        using a by (simp add: js_add_one_exact)
      moreover have "task_id t \<le> task_id (last ?old)" using a t by blast
      ultimately show "task_id t \<noteq> js_add_one (task_id (last ?old))" by simp
    qed
    then show "distinct_ids (snd (saveTask (JInt 0) ttl cmpl d))"
      using c3 a by blast
  qed
  have c5: "increasing_ids d \<longrightarrow>
        distinct_ids d \<and> increasing_ids (snd (deleteTaskByID i d))"
  proof
    assume incr: "increasing_ids d"
    have "distinct_ids d"
      using incr by (simp add: increasing_ids_def distinct_ids_def strict_sorted_iff)
    moreover have "increasing_ids (snd (deleteTaskByID i d))"
      using deleteTaskByID_store [of i d] incr
      by (auto simp add: increasing_ids_def increasing_ids_filter)
    ultimately show "distinct_ids d \<and> increasing_ids (snd (deleteTaskByID i d))" by simp
  qed
  have c6: "increasing_ids d
        \<and> (?old \<noteq> [] \<longrightarrow> - (2 ^ 53) \<le> task_id (last ?old) \<and> task_id (last ?old) < 2 ^ 53)
        \<longrightarrow> increasing_ids (snd (saveTask i ttl cmpl d))"
  proof
    assume a: "increasing_ids d
        \<and> (?old \<noteq> [] \<longrightarrow> - (2 ^ 53) \<le> task_id (last ?old) \<and> task_id (last ?old) < 2 ^ 53)"
    have "sorted_wrt (<) (map task_id ?new)"
      using a next_above by (intro increasing_ids_append) (simp_all add: increasing_ids_def)
    then show "increasing_ids (snd (saveTask i ttl cmpl d))"
      using saveTask_store [of i ttl cmpl d] a
      by (auto simp add: increasing_ids_def assign_first_ids)
  qed
  have c7: "writable d \<longrightarrow>
        insertBulkData (BulkArray ts) d = (Inr (), d\<lparr>content := Some (ArrayText ts)\<rparr>)
          \<and> distinct_ids (snd (insertBulkData (BulkArray ts) d)) = distinct (map task_id ts)"
    by (simp add: insertBulkData_def writeFileSync_def JSON_stringify_def distinct_ids_def
        store_tasks_def)
  from c1 c2 c3 c4 c5 c6 c7 show ?thesis by blast
qed

text \<open>
  C2, witness: the three operations on a store that holds the ids 1 and 4.
\<close>

theorem ids_preserved_witness:
  "distinct_ids (snd (deleteTaskByID (JInt 1)
       \<lparr>content = Some (ArrayText [\<lparr>task_id = 1, title = ''buy milk'', completed = True\<rparr>,
                                   \<lparr>task_id = 4, title = ''pay rent'', completed = False\<rparr>]),
        writable = True\<rparr>))
   \<and> distinct_ids (snd (saveTask (JInt 4) ''walk dog'' True
       \<lparr>content = Some (ArrayText [\<lparr>task_id = 1, title = ''buy milk'', completed = True\<rparr>,
                                   \<lparr>task_id = 4, title = ''pay rent'', completed = False\<rparr>]),
        writable = True\<rparr>))
   \<and> distinct_ids (snd (saveTask (JInt 0) ''walk dog'' True
       \<lparr>content = Some (ArrayText [\<lparr>task_id = 1, title = ''buy milk'', completed = True\<rparr>,
                                   \<lparr>task_id = 4, title = ''pay rent'', completed = False\<rparr>]),
        writable = True\<rparr>))
   \<and> increasing_ids (snd (saveTask (JInt 0) ''walk dog'' True
       \<lparr>content = Some (ArrayText [\<lparr>task_id = 1, title = ''buy milk'', completed = True\<rparr>,
                                   \<lparr>task_id = 4, title = ''pay rent'', completed = False\<rparr>]),
        writable = True\<rparr>))
   \<and> increasing_ids (snd (deleteTaskByID (JInt 1)
       \<lparr>content = Some (ArrayText [\<lparr>task_id = 1, title = ''buy milk'', completed = True\<rparr>,
                                   \<lparr>task_id = 4, title = ''pay rent'', completed = False\<rparr>]),
        writable = True\<rparr>))
   \<and> distinct_ids (snd (insertBulkData
        (BulkArray [\<lparr>task_id = 2, title = ''call mum'', completed = False\<rparr>])
       \<lparr>content = Some (ArrayText [\<lparr>task_id = 1, title = ''buy milk'', completed = True\<rparr>,
                                   \<lparr>task_id = 4, title = ''pay rent'', completed = False\<rparr>]),
        writable = True\<rparr>))"
proof -
  let ?ts = "[\<lparr>task_id = 1, title = ''buy milk'', completed = True\<rparr>,
              \<lparr>task_id = 4, title = ''pay rent'', completed = False\<rparr>]"
  let ?d = "\<lparr>content = Some (ArrayText ?ts), writable = True\<rparr>"
  have st: "store_tasks ?d = ?ts" by (simp add: store_tasks_def)
  have dist: "distinct_ids ?d" by (simp add: distinct_ids_def st)
  have incr: "increasing_ids ?d" by (simp add: increasing_ids_def st)
  have top: "\<forall>t\<in>set (store_tasks ?d). task_id t \<le> task_id (last (store_tasks ?d))"
    by (simp add: st)
  have bound: "store_tasks ?d \<noteq> [] \<longrightarrow>
      - (2 ^ 53) \<le> task_id (last (store_tasks ?d)) \<and> task_id (last (store_tasks ?d)) < 2 ^ 53"
    by (simp add: st)
  have w: "writable ?d" by simp
  have nz: "JInt 4 \<noteq> JInt 0" by simp
  have new: "distinct (map task_id [\<lparr>task_id = 2, title = ''call mum'', completed = False\<rparr>])"
    by simp
  show ?thesis
    using ids_preserved [of ?d "JInt 1" "''walk dog''" True
        "[\<lparr>task_id = 2, title = ''call mum'', completed = False\<rparr>]"]
      ids_preserved [of ?d "JInt 4" "''walk dog''" True "[]"]
      ids_preserved [of ?d "JInt 0" "''walk dog''" True "[]"]
      dist incr top bound w nz new
    by blast
qed

text \<open>
  C2, counterexample to the claim as written: from a store with the distinct ids 3
  and 2, \<^verbatim>\<open>insertBulkData\<close> with two tasks of id 1 leaves a store with a repeated id, and
  \<^verbatim>\<open>saveTask\<close> with the id 0 stores a second task with the id 3.
\<close>

theorem ids_not_preserved:
  "distinct_ids
     \<lparr>content = Some (ArrayText [\<lparr>task_id = 3, title = ''buy milk'', completed = False\<rparr>,
                                 \<lparr>task_id = 2, title = ''pay rent'', completed = False\<rparr>]),
      writable = True\<rparr>
   \<and> \<not> distinct_ids (snd (insertBulkData
         (BulkArray [\<lparr>task_id = 1, title = ''call mum'', completed = False\<rparr>,
                     \<lparr>task_id = 1, title = ''walk dog'', completed = False\<rparr>])
         \<lparr>content = Some (ArrayText [\<lparr>task_id = 3, title = ''buy milk'', completed = False\<rparr>,
                                     \<lparr>task_id = 2, title = ''pay rent'', completed = False\<rparr>]),
          writable = True\<rparr>))
   \<and> saveTask (JInt 0) ''walk dog'' False
         \<lparr>content = Some (ArrayText [\<lparr>task_id = 3, title = ''buy milk'', completed = False\<rparr>,
                                     \<lparr>task_id = 2, title = ''pay rent'', completed = False\<rparr>]),
          writable = True\<rparr>
       = (Inr 3,
          \<lparr>content = Some (ArrayText [\<lparr>task_id = 3, title = ''buy milk'', completed = False\<rparr>,
                                     \<lparr>task_id = 2, title = ''pay rent'', completed = False\<rparr>,
                                     \<lparr>task_id = 3, title = ''walk dog'', completed = False\<rparr>]),
           writable = True\<rparr>)
   \<and> \<not> distinct_ids (snd (saveTask (JInt 0) ''walk dog'' False
         \<lparr>content = Some (ArrayText [\<lparr>task_id = 3, title = ''buy milk'', completed = False\<rparr>,
                                     \<lparr>task_id = 2, title = ''pay rent'', completed = False\<rparr>]),
          writable = True\<rparr>))"
  by (simp add: distinct_ids_def store_tasks_def insertBulkData_def saveTask_def
      saveTask_load_def DBExists_def existsSync_def readFileSync_def
      saveTask_create_def js_add_one_def Let_def writeFileSync_def JSON_stringify_def)

section \<open>An absent file\<close>

text \<open>
  C7 (as amended). With the file absent and writable:
  \<^item> \<^verbatim>\<open>getTaskByID\<close> and \<^verbatim>\<open>getTaskByTitle\<close> create it as the empty array and return
    \<^verbatim>\<open>null\<close>; \<^verbatim>\<open>getAllTasks\<close> creates it as the empty array and returns the empty array;
  \<^item> \<^verbatim>\<open>saveTask\<close>, called with a title of at least three characters, creates it as the
    empty array and goes on: with the id 0 the new task is stored with the id 1, with
    a positive id the call throws "Task not found" and the file stays the empty array;
  \<^item> \<^verbatim>\<open>deleteTaskByID\<close> with a positive id does not create the file: it throws "Cannot
    read DB file" and the file stays absent.
\<close>

theorem absent_file:
  assumes "content d = None" and "writable d"
  shows "getTaskByID i d = (Inr None, d\<lparr>content := Some (ArrayText [])\<rparr>)
    \<and> getTaskByTitle ttl d = (Inr None, d\<lparr>content := Some (ArrayText [])\<rparr>)
    \<and> getAllTasks d = (Inr [], d\<lparr>content := Some (ArrayText [])\<rparr>)
    \<and> (3 \<le> length ttl \<longrightarrow>
         saveTask (JInt 0) ttl cmpl d =
           (Inr 1, d\<lparr>content := Some (ArrayText [\<lparr>task_id = 1, title = ttl, completed = cmpl\<rparr>])\<rparr>))
    \<and> (3 \<le> length ttl \<and> 0 < k \<longrightarrow>
         saveTask (JInt k) ttl cmpl d = (Inl TaskNotFound, d\<lparr>content := Some (ArrayText [])\<rparr>))
    \<and> (0 < k \<longrightarrow> deleteTaskByID (JInt k) d = (Inl CannotReadDB, d))"
proof (intro conjI impI)
  have created: "createDB d = (Inr True, d\<lparr>content := Some (ArrayText [])\<rparr>)"
    using assms by (simp add: createDB_def existsSync_def writeFileSync_def)
  have absent: "\<not> DBExists d"
    using assms(1) by (simp add: DBExists_def existsSync_def)
  show "getTaskByID i d = (Inr None, d\<lparr>content := Some (ArrayText [])\<rparr>)"
    by (simp add: getTaskByID_def find_in_DB_def absent created)
  show "getTaskByTitle ttl d = (Inr None, d\<lparr>content := Some (ArrayText [])\<rparr>)"
    by (simp add: getTaskByTitle_def find_in_DB_def absent created)
  show "getAllTasks d = (Inr [], d\<lparr>content := Some (ArrayText [])\<rparr>)"
    by (simp add: getAllTasks_def absent created)
  show "saveTask (JInt 0) ttl cmpl d =
      (Inr 1, d\<lparr>content := Some (ArrayText [\<lparr>task_id = 1, title = ttl, completed = cmpl\<rparr>])\<rparr>)"
    if "3 \<le> length ttl"
    using that assms(2)
    by (simp add: saveTask_def saveTask_load_absent [OF assms] saveTask_create_def Let_def
        writeFileSync_def JSON_stringify_def)
  show "saveTask (JInt k) ttl cmpl d = (Inl TaskNotFound, d\<lparr>content := Some (ArrayText [])\<rparr>)"
    if "3 \<le> length ttl \<and> 0 < k"
    using that
    by (simp add: saveTask_def saveTask_load_absent [OF assms] saveTask_update_def)
  show "deleteTaskByID (JInt k) d = (Inl CannotReadDB, d)" if "0 < k"
    using that assms(1) by (simp add: deleteTaskByID_def readFileSync_def)
qed

text \<open>
  C7, witness: the five operations on an absent file.
\<close>

theorem absent_file_witness:
  "getTaskByID (JInt 3) \<lparr>content = None, writable = True\<rparr>
     = (Inr None, \<lparr>content = Some (ArrayText []), writable = True\<rparr>)
   \<and> getTaskByTitle ''buy milk'' \<lparr>content = None, writable = True\<rparr>
     = (Inr None, \<lparr>content = Some (ArrayText []), writable = True\<rparr>)
   \<and> getAllTasks \<lparr>content = None, writable = True\<rparr>
     = (Inr [], \<lparr>content = Some (ArrayText []), writable = True\<rparr>)
   \<and> saveTask (JInt 0) ''buy milk'' False \<lparr>content = None, writable = True\<rparr>
     = (Inr 1, \<lparr>content = Some (ArrayText
                  [\<lparr>task_id = 1, title = ''buy milk'', completed = False\<rparr>]), writable = True\<rparr>)
   \<and> saveTask (JInt 2) ''buy milk'' False \<lparr>content = None, writable = True\<rparr>
     = (Inl TaskNotFound, \<lparr>content = Some (ArrayText []), writable = True\<rparr>)
   \<and> deleteTaskByID (JInt 2) \<lparr>content = None, writable = True\<rparr>
     = (Inl CannotReadDB, \<lparr>content = None, writable = True\<rparr>)"
  using absent_file [of "\<lparr>content = None, writable = True\<rparr>" "JInt 3" "''buy milk''" False 2]
  by simp

text \<open>
  C7, counterexample to the claim as written (every reading operation creates the
  file): \<^verbatim>\<open>deleteTaskByID\<close> on an absent file throws and creates nothing.
\<close>

theorem deleteTaskByID_absent_file:
  "deleteTaskByID (JInt 1) \<lparr>content = None, writable = True\<rparr>
     = (Inl CannotReadDB, \<lparr>content = None, writable = True\<rparr>)"
  by (simp add: deleteTaskByID_def readFileSync_def)

end
